theory Spec2Isabelle
  imports Complex_Main
begin

section \<open>The API client: \<open>request\<close> (lib/api.ts)\<close>

text \<open>
  A parsed JSON value, as \<open>response.json()\<close> resolves to it. A number is kept by its
  value; only whether it is zero matters below. An object is the list of its
  properties.
\<close>

datatype json =
    JNull
  | JBool bool
  | JNum rat
  | JStr string
  | JArr "json list"
  | JObj "(string \<times> json) list"

text \<open>
  What \<open>fetch\<close> resolves to, as far as \<open>request\<close> reads it: the status code and the
  outcome of \<open>response.json()\<close> (\<open>None\<close> when the body is not JSON and the promise of
  \<open>json()\<close> rejects). \<open>response.ok\<close> is, by the Fetch standard, that the status is in
  the range 200 to 299.
\<close>

record response =
  status :: nat
  body :: "json option"

definition ok :: "response \<Rightarrow> bool" where
  "ok r = (200 \<le> status r \<and> status r \<le> 299)"

datatype fetch_outcome = Rejected | Resolved response

text \<open>
  The message of \<open>new Error(v)\<close> is the string conversion of \<open>v\<close>: a string is its own
  conversion, the conversion of any other value is kept symbolic.
\<close>

datatype message = Text string | Converted json

datatype js_error =
    Error message          \<comment> \<open>\<open>throw new Error(...)\<close> of \<open>request\<close>\<close>
  | TypeError_null         \<comment> \<open>reading a property of \<open>null\<close>\<close>
  | SyntaxError            \<comment> \<open>\<open>response.json()\<close> rejected, not caught\<close>
  | FetchFailed            \<comment> \<open>\<open>fetch\<close> itself rejected\<close>

fun to_message :: "json \<Rightarrow> message" where
  "to_message (JStr s) = Text s"
| "to_message v = Converted v"

text \<open>JavaScript truthiness of a JSON value, and of a \<open>string | null\<close>.\<close>

fun truthy :: "json \<Rightarrow> bool" where
  "truthy JNull = False"
| "truthy (JBool b) = b"
| "truthy (JNum n) = (n \<noteq> 0)"
| "truthy (JStr s) = (s \<noteq> [])"
| "truthy (JArr xs) = True"
| "truthy (JObj kvs) = True"

fun truthy_str :: "string option \<Rightarrow> bool" where
  "truthy_str None = False"
| "truthy_str (Some s) = (s \<noteq> [])"

text \<open>
  \<open>error.detail\<close>: reading a property of \<open>null\<close> throws; an object yields the property
  or \<open>undefined\<close> (\<open>None\<close>); no other JSON value has a property \<open>detail\<close>.
\<close>

fun get_detail :: "json \<Rightarrow> js_error + json option" where
  "get_detail JNull = Inl TypeError_null"
| "get_detail (JObj kvs) = Inr (map_of kvs ''detail'')"
| "get_detail v = Inr None"

text \<open>\<open>error.detail || 'Request failed'\<close>\<close>

definition detail_or_default :: "json option \<Rightarrow> json" where
  "detail_or_default d =
     (case d of
        None \<Rightarrow> JStr ''Request failed''
      | Some v \<Rightarrow> if truthy v then v else JStr ''Request failed'')"

text \<open>The \<open>Authorization\<close> header: set only when \<open>token\<close> is truthy.\<close>

definition authorization :: "string option \<Rightarrow> string option" where
  "authorization token =
     (case token of
        None \<Rightarrow> None
      | Some t \<Rightarrow> if truthy_str (Some t) then Some (''Bearer '' @ t) else None)"

text \<open>
  \<open>request\<close>. The network and the server are the function \<open>fetch\<close>, from the endpoint and
  the \<open>Authorization\<close> header to the outcome of the call. The result is the value the promise
  resolves to (\<open>Inr\<close>, with \<open>JNull\<close> for \<open>null\<close>) or the error it rejects with (\<open>Inl\<close>).
\<close>

definition request ::
  "(string \<Rightarrow> string option \<Rightarrow> fetch_outcome) \<Rightarrow> string \<Rightarrow> string option \<Rightarrow> js_error + json"
where
  "request fetch endpoint token =
     (case fetch endpoint (authorization token) of
        Rejected \<Rightarrow> Inl FetchFailed
      | Resolved r \<Rightarrow>
          if \<not> ok r then
            (let error = (case body r of
                            None \<Rightarrow> JObj [(''detail'', JStr ''Request failed'')]
                          | Some j \<Rightarrow> j)
             in case get_detail error of
                  Inl e \<Rightarrow> Inl e
                | Inr d \<Rightarrow> Inl (Error (to_message (detail_or_default d))))
          else if status r = 204 then Inr JNull
          else (case body r of None \<Rightarrow> Inl SyntaxError | Some j \<Rightarrow> Inr j))"

definition auth_me ::
  "(string \<Rightarrow> string option \<Rightarrow> fetch_outcome) \<Rightarrow> string \<Rightarrow> js_error + json"
where
  "auth_me fetch token = request fetch ''/auth/me'' (Some token)"

section \<open>The auth store (stores/auth.ts) and its use at startup (App.tsx)\<close>

text \<open>
  The store's data. \<open>token\<close> and \<open>error\<close> are \<open>string | null\<close>; \<open>user\<close> is whatever
  \<open>auth.me\<close> resolved to (the cast to \<open>User\<close> is unchecked), with \<open>JNull\<close> for \<open>null\<close>.
\<close>

record auth_state =
  token :: "string option"
  user :: json
  isLoading :: bool
  error :: "string option"

definition initial_state :: auth_state where
  "initial_state = \<lparr>token = None, user = JNull, isLoading = False, error = None\<rparr>"

text \<open>\<open>partialize\<close>: only the token is written to storage.\<close>

definition partialize :: "auth_state \<Rightarrow> string option" where
  "partialize s = token s"

text \<open>On load the persisted part is merged into the initial state.\<close>

definition rehydrate :: "string option \<Rightarrow> auth_state" where
  "rehydrate stored = initial_state\<lparr>token := stored\<rparr>"

definition logout :: "auth_state \<Rightarrow> auth_state" where
  "logout s = s\<lparr>token := None, user := JNull, error := None\<rparr>"

text \<open>
  \<open>loadUser\<close>, run to completion with no other action of the store in between.
\<close>

definition loadUser ::
  "(string \<Rightarrow> string option \<Rightarrow> fetch_outcome) \<Rightarrow> auth_state \<Rightarrow> auth_state"
where
  "loadUser fetch s =
     (case token s of
        None \<Rightarrow> s\<lparr>isLoading := False\<rparr>
      | Some t \<Rightarrow>
          if \<not> truthy_str (Some t) then s\<lparr>isLoading := False\<rparr>
          else
            (let s1 = s\<lparr>isLoading := True\<rparr>
             in case auth_me fetch t of
                  Inr u \<Rightarrow> s1\<lparr>user := u, isLoading := False\<rparr>
                | Inl e \<Rightarrow> s1\<lparr>token := None, user := JNull, isLoading := False\<rparr>))"

text \<open>
  The effect of \<open>App\<close> on mount: \<open>if (token) loadUser()\<close>. The second component tells
  whether \<open>loadUser\<close> was called.
\<close>

definition App :: "(string \<Rightarrow> string option \<Rightarrow> fetch_outcome) \<Rightarrow> auth_state \<Rightarrow> auth_state \<times> bool" where
  "App fetch s = (if truthy_str (token s) then (loadUser fetch s, True) else (s, False))"

definition startup :: "(string \<Rightarrow> string option \<Rightarrow> fetch_outcome) \<Rightarrow> string option \<Rightarrow> auth_state \<times> bool" where
  "startup fetch stored = App fetch (rehydrate stored)"

text \<open>Two servers for the examples: one knows the token \<open>abc\<close> only, one answers
  every call with an empty \<open>detail\<close>.\<close>

definition example_net :: "string \<Rightarrow> string option \<Rightarrow> fetch_outcome" where
  "example_net endpoint auth =
     (if auth = Some ''Bearer abc''
      then Resolved \<lparr>status = 200, body = Some (JObj [(''id'', JStr ''u1'')])\<rparr>
      else Resolved \<lparr>status = 401,
             body = Some (JObj [(''detail'', JStr ''Could not validate credentials'')])\<rparr>)"

definition empty_detail_net :: "string \<Rightarrow> string option \<Rightarrow> fetch_outcome" where
  "empty_detail_net endpoint auth =
     Resolved \<lparr>status = 400, body = Some (JObj [(''detail'', JStr [])])\<rparr>"

section \<open>The data model of the service\<close>

text \<open>
  The client declares the entities it exchanges with the service (lib/api.ts,
  \<open>Category\<close>, \<open>Transaction\<close>); amounts are decimals, kept as rationals. A date is a
  calendar date; a month is given by a date of it.
\<close>

record date =
  year :: int
  month :: nat
  day :: nat

record category =
  cat_id :: string
  cat_name :: string
  cat_icon :: string
  cat_color :: string
  cat_is_income :: bool
  cat_is_default :: bool
  cat_user_id :: "string option"
  cat_household_id :: "string option"

record transaction =
  tx_id :: string
  tx_amount :: rat
  tx_description :: "string option"
  tx_date :: date
  tx_category_id :: string
  tx_user_id :: string
  tx_household_id :: "string option"
  tx_is_shared :: bool

record monthly_summary =
  ms_month :: date
  total_income :: rat
  total_expenses :: rat
  net :: rat
  ms_transaction_count :: nat

record category_breakdown =
  cb_category_id :: string
  cb_category_name :: string
  cb_category_icon :: string
  cb_category_color :: string
  cb_total :: rat
  cb_percentage :: rat
  cb_transaction_count :: nat

section \<open>The aggregation engine\<close>

text \<open>
  The analytics functions \<open>monthlySummary\<close> and \<open>categoryBreakdown\<close> run in the
  service, whose code is not among the sources: the client only calls them
  (\<open>analytics.monthly\<close>, \<open>analytics.categories\<close>). They are modelled here from their
  description (spec 4.1).
\<close>

text \<open>
  Modelled from the spec: a scope, "the owning context (individual user or household)
  over which a query is restricted"; the service's type is not among the sources.
\<close>

datatype scope = User_scope string | Household_scope string

text \<open>
  Modelled from the spec: whether a transaction belongs to a scope, "the owning context
  (individual user or household) over which a query is restricted"; the service's query
  is not among the sources.
\<close>

fun tx_in_scope :: "scope \<Rightarrow> transaction \<Rightarrow> bool" where
  "tx_in_scope (User_scope u) t = (tx_user_id t = u)"
| "tx_in_scope (Household_scope h) t = (tx_household_id t = Some h)"

text \<open>
  Modelled from the spec: "whose date falls within the calendar month"; the service's
  query is not among the sources.
\<close>

definition in_month :: "date \<Rightarrow> date \<Rightarrow> bool" where
  "in_month d m = (year d = year m \<and> month d = month m)"

text \<open>
  Modelled from the spec: the transactions a query ranges over, "all transactions in
  scope whose date falls within the calendar month"; the service's query is not among
  the sources.
\<close>

definition selected :: "scope \<Rightarrow> date \<Rightarrow> transaction list \<Rightarrow> transaction list" where
  "selected sc m txs = filter (\<lambda>t. tx_in_scope sc t \<and> in_month (tx_date t) m) txs"

text \<open>
  Modelled from the spec: the sign of a transaction is the \<open>is_income\<close> flag of its
  category (spec 3), found in the category table by id; \<open>None\<close> when the table has no
  such category. The service's join is not among the sources.
\<close>

definition tx_flag :: "category list \<Rightarrow> transaction \<Rightarrow> bool option" where
  "tx_flag cats t = map_option cat_is_income (find (\<lambda>c. cat_id c = tx_category_id t) cats)"

text \<open>
  Modelled from the spec: the total of the transactions whose category has the given
  flag, the "total_income" and "total_expenses" of the summary and "the scope's total
  for that flag" of the breakdown; the service's code is not among the sources.
\<close>

definition total_for :: "category list \<Rightarrow> bool \<Rightarrow> transaction list \<Rightarrow> rat" where
  "total_for cats flag txs = sum_list (map tx_amount (filter (\<lambda>t. tx_flag cats t = Some flag) txs))"

text \<open>
  Modelled from the spec: \<open>monthlySummary(scope, month)\<close>, "total_income,
  total_expenses, net (income - expenses), transaction_count, for all transactions in
  scope whose date falls within the calendar month. Categories with is_income=true
  contribute to total_income; others to total_expenses." The service's code is not
  among the sources.
\<close>

definition monthlySummary ::
  "category list \<Rightarrow> transaction list \<Rightarrow> scope \<Rightarrow> date \<Rightarrow> monthly_summary"
where
  "monthlySummary cats txs sc m =
     (let ts = selected sc m txs;
          income = total_for cats True ts;
          expenses = total_for cats False ts
      in \<lparr>ms_month = m, total_income = income, total_expenses = expenses,
          net = income - expenses, ms_transaction_count = length ts\<rparr>)"

text \<open>
  Modelled from the spec: one row of the breakdown, for one category, as the next
  definition's sentence of the spec describes it; the service's code is not among the
  sources.
\<close>

definition breakdown_row :: "rat \<Rightarrow> transaction list \<Rightarrow> category \<Rightarrow> category_breakdown" where
  "breakdown_row grand ts c =
     (let mine = filter (\<lambda>t. tx_category_id t = cat_id c) ts;
          total = sum_list (map tx_amount mine)
      in \<lparr>cb_category_id = cat_id c, cb_category_name = cat_name c,
          cb_category_icon = cat_icon c, cb_category_color = cat_color c,
          cb_total = total,
          cb_percentage = (if grand = 0 then 0 else total / grand * 100),
          cb_transaction_count = length mine\<rparr>)"

text \<open>
  Modelled from the spec: \<open>categoryBreakdown(scope, month, is_income)\<close>, "for each
  category matching the is_income flag, total amount summed, percentage of the scope's
  total for that flag, transaction count; sorted descending by total. Percentage is 0
  when the scope total is 0." The service's code is not among the sources.
\<close>

definition categoryBreakdown ::
  "category list \<Rightarrow> transaction list \<Rightarrow> scope \<Rightarrow> date \<Rightarrow> bool \<Rightarrow> category_breakdown list"
where
  "categoryBreakdown cats txs sc m flag =
     (let ts = selected sc m txs;
          grand = total_for cats flag ts
      in rev (sort_key cb_total
           (map (breakdown_row grand ts) (filter (\<lambda>c. cat_is_income c = flag) cats))))"

text \<open>A category table, a ledger and a month for the examples.\<close>

definition example_month :: date where
  "example_month = \<lparr>year = 2024, month = 3, day = 1\<rparr>"

definition example_cats :: "category list" where
  "example_cats =
     [\<lparr>cat_id = ''food'', cat_name = ''Hrana'', cat_icon = ''f'', cat_color = ''#f00'',
       cat_is_income = False, cat_is_default = True, cat_user_id = None,
       cat_household_id = None\<rparr>,
      \<lparr>cat_id = ''rent'', cat_name = ''Stanovanje'', cat_icon = ''r'', cat_color = ''#0f0'',
       cat_is_income = False, cat_is_default = True, cat_user_id = None,
       cat_household_id = None\<rparr>,
      \<lparr>cat_id = ''pay'', cat_name = ''Plata'', cat_icon = ''p'', cat_color = ''#00f'',
       cat_is_income = True, cat_is_default = True, cat_user_id = None,
       cat_household_id = None\<rparr>]"

definition example_tx :: "string \<Rightarrow> rat \<Rightarrow> nat \<Rightarrow> nat \<Rightarrow> string \<Rightarrow> transaction" where
  "example_tx i a mo d c =
     \<lparr>tx_id = i, tx_amount = a, tx_description = None,
      tx_date = \<lparr>year = 2024, month = mo, day = d\<rparr>, tx_category_id = c,
      tx_user_id = ''u1'', tx_household_id = None, tx_is_shared = False\<rparr>"

definition example_txs :: "transaction list" where
  "example_txs =
     [example_tx ''t1'' 40 3 2 ''food'', example_tx ''t2'' 500 3 5 ''rent'',
      example_tx ''t3'' 25 3 9 ''food'', example_tx ''t4'' 1200 3 10 ''pay'',
      example_tx ''t5'' 60 4 1 ''food'']"

section \<open>The import mapper\<close>

text \<open>
  Modelled from the spec: the column mapping a caller selects (spec 4.2), as the
  service receives it; the client sends these fields with the file (ImportCSV.tsx,
  \<open>handleImport\<close>), the service's type is not among the sources.
\<close>

record mapping =
  date_column :: string
  amount_column :: string
  description_column :: "string option"
  category_id :: string
  date_format :: string
  negate_amounts :: bool

text \<open>
  Modelled from the spec: a candidate transaction, the result of mapping one row
  (spec 4.2); the service's type is not among the sources.
\<close>

record candidate =
  c_date :: date
  c_amount :: rat
  c_description :: "string option"
  c_category_id :: string

datatype parse_error = ParseError string

text \<open>
  Modelled from the spec: \<open>mapRow\<close> (spec 4.2), whose code is not among the sources:
  "parse the date using the given format (fails with ParseError if unparseable), parse
  the amount as a decimal (fails with ParseError if unparseable), negate the amount if
  negateAmounts is set, attach the given category and optional description." A row maps
  column names to cells. The two parsers are the date parser (format, then text) and
  the decimal parser of the platform, taken as parameters; a cell the row does not
  have cannot be parsed.
\<close>

definition mapRow ::
  "(string \<Rightarrow> string \<Rightarrow> date option) \<Rightarrow> (string \<Rightarrow> rat option) \<Rightarrow> mapping
     \<Rightarrow> (string \<rightharpoonup> string) \<Rightarrow> parse_error + candidate"
where
  "mapRow parse_date parse_decimal mp row =
     (case Option.bind (row (date_column mp)) (parse_date (date_format mp)) of
        None \<Rightarrow> Inl (ParseError ''unparseable date'')
      | Some d \<Rightarrow>
          (case Option.bind (row (amount_column mp)) parse_decimal of
             None \<Rightarrow> Inl (ParseError ''unparseable amount'')
           | Some a \<Rightarrow>
               Inr \<lparr>c_date = d,
                    c_amount = (if negate_amounts mp then - a else a),
                    c_description = Option.bind (description_column mp) row,
                    c_category_id = category_id mp\<rparr>))"

text \<open>
  Modelled from the spec: the result of \<open>confirm\<close>, "counts of imported, skipped, and
  the list of per-row error messages (row-identifying, human-readable)", together with
  the transactions persisted. An error message is the number of the row and the text.
  The service's type is not among the sources; the client reads \<open>imported\<close>,
  \<open>skipped\<close> and \<open>errors\<close> of it.
\<close>

record import_result =
  imported :: nat
  skipped :: nat
  errors :: "(nat \<times> string) list"
  persisted :: "candidate list"

text \<open>
  Modelled from the spec: \<open>confirm(file, mapping)\<close> (spec 4.2), "applies mapRow to
  every data row; rows that fail parsing are counted as skipped with a recorded error
  message rather than aborting the whole import; successfully mapped rows are persisted
  as transactions." The service's code is not among the sources. The file is the list
  of its data rows; the loop carries the number of the row and the result so far.
\<close>

fun confirm_rows ::
  "(string \<Rightarrow> string \<Rightarrow> date option) \<Rightarrow> (string \<Rightarrow> rat option) \<Rightarrow> mapping
     \<Rightarrow> nat \<Rightarrow> (string \<rightharpoonup> string) list \<Rightarrow> import_result \<Rightarrow> import_result"
where
  "confirm_rows pd pa mp i [] res = res"
| "confirm_rows pd pa mp i (row # rows) res =
     (case mapRow pd pa mp row of
        Inr t \<Rightarrow>
          confirm_rows pd pa mp (Suc i) rows
            (res\<lparr>imported := Suc (imported res), persisted := persisted res @ [t]\<rparr>)
      | Inl (ParseError msg) \<Rightarrow>
          confirm_rows pd pa mp (Suc i) rows
            (res\<lparr>skipped := Suc (skipped res), errors := errors res @ [(i, msg)]\<rparr>))"

definition confirm ::
  "(string \<Rightarrow> string \<Rightarrow> date option) \<Rightarrow> (string \<Rightarrow> rat option) \<Rightarrow> (string \<rightharpoonup> string) list
     \<Rightarrow> mapping \<Rightarrow> import_result"
where
  "confirm pd pa file mp =
     confirm_rows pd pa mp 1 file \<lparr>imported = 0, skipped = 0, errors = [], persisted = []\<rparr>"

text \<open>
  For the examples: a date parser that knows the days of March 2024 written
  \<open>dd.03.2024\<close> with two digits, a decimal parser that knows a few amounts, and a file
  of ten rows, two of them with dates that do not parse.
\<close>

definition example_parse_date :: "string \<Rightarrow> string \<Rightarrow> date option" where
  "example_parse_date fmt s =
     (if fmt = ''%d.%m.%Y'' then
        map_option (\<lambda>d. \<lparr>year = 2024, month = 3, day = d\<rparr>)
          (map_of [(''01.03.2024'', 1), (''02.03.2024'', 2), (''03.03.2024'', 3),
                   (''04.03.2024'', 4), (''05.03.2024'', 5)] s)
      else None)"

definition example_parse_decimal :: "string \<Rightarrow> rat option" where
  "example_parse_decimal s =
     map_of [(''100'', 100), (''-250'', - 250), (''12.50'', 25 / 2)] s"

definition example_row :: "string \<Rightarrow> string \<Rightarrow> (string \<rightharpoonup> string)" where
  "example_row d a = map_of [(''Datum'', d), (''Iznos'', a), (''Opis'', ''kupovina'')]"

definition example_file :: "(string \<rightharpoonup> string) list" where
  "example_file =
     [example_row ''01.03.2024'' ''100'', example_row ''02.03.2024'' ''-250'',
      example_row ''2024-03-03'' ''100'', example_row ''03.03.2024'' ''12.50'',
      example_row ''04.03.2024'' ''100'', example_row ''05.03.2024'' ''-250'',
      example_row ''yesterday'' ''12.50'', example_row ''01.03.2024'' ''12.50'',
      example_row ''02.03.2024'' ''100'', example_row ''03.03.2024'' ''-250'']"

definition example_mapping :: mapping where
  "example_mapping =
     \<lparr>date_column = ''Datum'', amount_column = ''Iznos'', description_column = Some ''Opis'',
      category_id = ''food'', date_format = ''%d.%m.%Y'', negate_amounts = False\<rparr>"

section \<open>Properties of the API client\<close>

text \<open>
  C9, as the code has it. For an API call whose \<open>fetch\<close> resolves with a response:
  a non-ok response always makes \<open>request\<close> throw. The message of the error is
  \<open>Request failed\<close> when the body is not JSON, when the body (an object, or any JSON
  value but \<open>null\<close>) has no \<open>detail\<close>, and also when it has a \<open>detail\<close> that is falsy
  (the empty string, 0, false, null); it is the \<open>detail\<close> when that is a non-empty
  string, and the string conversion of the \<open>detail\<close> when that is any other truthy
  value. A response with status 204 returns \<open>null\<close> whatever the body is; any other
  ok response returns the parsed body when the body is JSON.
\<close>

theorem request_outcome:
  assumes "fetch endpoint (authorization tok) = Resolved r"
  shows "(\<not> ok r \<longrightarrow> (\<exists>e. request fetch endpoint tok = Inl e))
    \<and> (\<not> ok r \<and> body r = None \<longrightarrow>
          request fetch endpoint tok = Inl (Error (Text ''Request failed'')))
    \<and> (\<forall>j. \<not> ok r \<and> body r = Some j \<and> get_detail j = Inr None \<longrightarrow>
          request fetch endpoint tok = Inl (Error (Text ''Request failed'')))
    \<and> (\<forall>j d. \<not> ok r \<and> body r = Some j \<and> get_detail j = Inr (Some d) \<and> \<not> truthy d \<longrightarrow>
          request fetch endpoint tok = Inl (Error (Text ''Request failed'')))
    \<and> (\<forall>j s. \<not> ok r \<and> body r = Some j \<and> get_detail j = Inr (Some (JStr s)) \<and> s \<noteq> [] \<longrightarrow>
          request fetch endpoint tok = Inl (Error (Text s)))
    \<and> (\<forall>j d. \<not> ok r \<and> body r = Some j \<and> get_detail j = Inr (Some d) \<and> truthy d \<longrightarrow>
          request fetch endpoint tok = Inl (Error (to_message d)))
    \<and> (status r = 204 \<longrightarrow> request fetch endpoint tok = Inr JNull)
    \<and> (\<forall>j. ok r \<and> status r \<noteq> 204 \<and> body r = Some j \<longrightarrow>
          request fetch endpoint tok = Inr j)"
  using assms
  by (auto simp: request_def detail_or_default_def ok_def split: sum.splits option.splits)

text \<open>
  The theorem at the example server: the known token gets the parsed body, an unknown
  one the error with the server's \<open>detail\<close>.
\<close>

theorem request_outcome_witness:
  "request example_net ''/auth/me'' (Some ''abc'') = Inr (JObj [(''id'', JStr ''u1'')])
   \<and> request example_net ''/auth/me'' (Some ''xyz'')
       = Inl (Error (Text ''Could not validate credentials''))"
proof -
  have a: "example_net ''/auth/me'' (authorization (Some ''abc''))
        = Resolved \<lparr>status = 200, body = Some (JObj [(''id'', JStr ''u1'')])\<rparr>"
    by (simp add: example_net_def authorization_def)
  have b: "example_net ''/auth/me'' (authorization (Some ''xyz''))
        = Resolved \<lparr>status = 401,
             body = Some (JObj [(''detail'', JStr ''Could not validate credentials'')])\<rparr>"
    by (simp add: example_net_def authorization_def)
  show ?thesis
    using request_outcome [of example_net "''/auth/me''" "Some ''abc''", OF a]
          request_outcome [of example_net "''/auth/me''" "Some ''xyz''", OF b]
    by (simp add: ok_def)
qed

text \<open>
  C9 as it is stated fails where the body of a non-ok response is \<open>{"detail": ""}\<close>:
  the body is JSON and has a \<open>detail\<close> field, the empty string, yet the message of the
  error is \<open>Request failed\<close> and not that field.
\<close>

theorem request_empty_detail_counterexample:
  "request empty_detail_net ''/budgets'' None = Inl (Error (Text ''Request failed''))
   \<and> request empty_detail_net ''/budgets'' None \<noteq> Inl (Error (Text []))"
  by (simp add: request_def ok_def empty_detail_net_def authorization_def
        detail_or_default_def)

section \<open>Properties of the auth store\<close>

text \<open>
  C8. Only the token of a session is persisted, so at startup the store holds the
  persisted token and no user, and \<open>App\<close> calls
  \<open>loadUser\<close> exactly when the stored token is present, that is, a non-empty string
  (what \<open>if (token)\<close> tests); without one the state stays as loaded, with no user,
  and with one the user that \<open>auth.me\<close> resolves to is stored.
  \<open>logout\<close>, from any state, sets \<open>token\<close> and \<open>user\<close> to \<open>null\<close>.
\<close>

theorem auth_lifecycle:
  "snd (startup fetch stored) = (\<exists>t. stored = Some t \<and> t \<noteq> [])
   \<and> fst (startup fetch stored)
       = (if truthy_str stored then loadUser fetch (rehydrate stored) else rehydrate stored)
   \<and> (\<not> truthy_str stored \<longrightarrow> user (fst (startup fetch stored)) = JNull)
   \<and> (\<forall>t u. stored = Some t \<and> t \<noteq> [] \<and> auth_me fetch t = Inr u
        \<longrightarrow> user (fst (startup fetch stored)) = u)
   \<and> token (rehydrate (partialize s0)) = token s0
   \<and> user (rehydrate (partialize s0)) = JNull
   \<and> token (logout s) = None \<and> user (logout s) = JNull"
  by (cases stored)
     (simp_all add: startup_def App_def logout_def rehydrate_def partialize_def
        initial_state_def loadUser_def)

text \<open>
  The theorem at the example server: with the token \<open>abc\<close> stored the user is loaded,
  with nothing stored it is not, and \<open>logout\<close> clears the loaded session.
\<close>

theorem auth_lifecycle_witness:
  "snd (startup example_net (Some ''abc''))
   \<and> user (fst (startup example_net (Some ''abc''))) = JObj [(''id'', JStr ''u1'')]
   \<and> \<not> snd (startup example_net None)
   \<and> user (fst (startup example_net None)) = JNull
   \<and> token (logout (fst (startup example_net (Some ''abc'')))) = None
   \<and> user (logout (fst (startup example_net (Some ''abc'')))) = JNull"
  using auth_lifecycle [of example_net "Some ''abc''" "fst (startup example_net (Some ''abc''))"]
        auth_lifecycle [of example_net None]
  by (simp add: loadUser_def rehydrate_def initial_state_def auth_me_def request_def
        ok_def example_net_def authorization_def)

text \<open>
  C10. When \<open>loadUser\<close> runs with a stored token and \<open>auth.me\<close> fails, whatever the
  error, the store ends with \<open>token\<close> and \<open>user\<close> both \<open>null\<close> and \<open>isLoading\<close> false:
  never with a token and no user.
\<close>

theorem loadUser_failure_clears:
  assumes "token s = Some t" and "t \<noteq> []" and "auth_me fetch t = Inl e"
  shows "token (loadUser fetch s) = None \<and> user (loadUser fetch s) = JNull
         \<and> \<not> isLoading (loadUser fetch s) \<and> error (loadUser fetch s) = error s"
  using assms by (simp add: loadUser_def)

text \<open>The theorem at the example server, which rejects the stored token \<open>xyz\<close>.\<close>

theorem loadUser_failure_clears_witness:
  "token (loadUser example_net (rehydrate (Some ''xyz''))) = None
   \<and> user (loadUser example_net (rehydrate (Some ''xyz''))) = JNull
   \<and> \<not> isLoading (loadUser example_net (rehydrate (Some ''xyz'')))"
proof -
  have a: "token (rehydrate (Some ''xyz'')) = Some ''xyz''"
    by (simp add: rehydrate_def initial_state_def)
  have b: "auth_me example_net ''xyz'' = Inl (Error (Text ''Could not validate credentials''))"
    by (simp add: auth_me_def request_def ok_def example_net_def authorization_def
          detail_or_default_def)
  show ?thesis
    using loadUser_failure_clears [OF a _ b] by simp
qed

section \<open>Properties of the aggregation engine\<close>

text \<open>Sorting does not change a sum.\<close>

lemma sum_list_insort_key:
  fixes f :: "'a \<Rightarrow> rat"
  shows "sum_list (map f (insort_key k x xs)) = f x + sum_list (map f xs)"
  by (induction xs) auto

lemma sum_list_sort_key:
  fixes f :: "'a \<Rightarrow> rat"
  shows "sum_list (map f (sort_key k xs)) = sum_list (map f xs)"
  by (induction xs) (auto simp: sum_list_insort_key)

lemma sum_list_rev_sort_key:
  fixes f :: "'a \<Rightarrow> rat"
  shows "sum_list (map f (rev (sort_key k xs))) = sum_list (map f xs)"
  by (simp add: rev_map [symmetric] sum_list_sort_key)

lemma sum_list_all_zero:
  fixes g :: "'a \<Rightarrow> rat"
  shows "(\<And>y. y \<in> set ys \<Longrightarrow> g y = 0) \<Longrightarrow> sum_list (map g ys) = 0"
  by (induction ys) auto

lemma cb_total_breakdown_row:
  "cb_total (breakdown_row grand ts c)
     = sum_list (map tx_amount (filter (\<lambda>t. tx_category_id t = cat_id c) ts))"
  by (simp add: breakdown_row_def Let_def)

text \<open>How often an id occurs among the categories of one flag, when ids are unique.\<close>

lemma flag_of_find:
  assumes "distinct (map cat_id cats)"
  shows "sum_list (map (\<lambda>c. if k = cat_id c then (x::rat) else 0)
            (filter (\<lambda>c. cat_is_income c = flag) cats))
         = (if map_option cat_is_income (find (\<lambda>c. cat_id c = k) cats) = Some flag
            then x else 0)"
  using assms
proof (induction cats)
  case Nil
  then show ?case by simp
next
  case (Cons c cats)
  have zero: "sum_list (map (\<lambda>c'. if cat_id c = cat_id c' then x else 0)
            (filter (\<lambda>c. cat_is_income c = flag) cats)) = 0"
    using Cons.prems by (intro sum_list_all_zero) auto
  show ?case
  proof (cases "cat_id c = k")
    case True
    then show ?thesis using zero by auto
  next
    case False
    then show ?thesis using Cons by auto
  qed
qed

lemma breakdown_sum:
  assumes "distinct (map cat_id cats)"
  shows "sum_list (map (\<lambda>c. sum_list (map tx_amount (filter (\<lambda>t. tx_category_id t = cat_id c) ts)))
            (filter (\<lambda>c. cat_is_income c = flag) cats))
         = total_for cats flag ts"
proof (induction ts)
  case Nil
  then show ?case by (simp add: total_for_def)
next
  case (Cons t ts)
  let ?cs = "filter (\<lambda>c. cat_is_income c = flag) cats"
  have split: "(\<lambda>c. sum_list (map tx_amount (filter (\<lambda>t. tx_category_id t = cat_id c) (t # ts))))
     = (\<lambda>c. (if tx_category_id t = cat_id c then tx_amount t else 0)
             + sum_list (map tx_amount (filter (\<lambda>t. tx_category_id t = cat_id c) ts)))"
    by auto
  have "sum_list (map (\<lambda>c. sum_list (map tx_amount (filter (\<lambda>t. tx_category_id t = cat_id c) (t # ts)))) ?cs)
      = sum_list (map (\<lambda>c. if tx_category_id t = cat_id c then tx_amount t else 0) ?cs)
        + sum_list (map (\<lambda>c. sum_list (map tx_amount (filter (\<lambda>t. tx_category_id t = cat_id c) ts))) ?cs)"
    unfolding split by (simp add: sum_list_addf)
  also have "\<dots> = (if tx_flag cats t = Some flag then tx_amount t else 0) + total_for cats flag ts"
    using flag_of_find [OF assms, of "tx_category_id t" "tx_amount t" flag] Cons.IH
    by (simp add: tx_flag_def)
  also have "\<dots> = total_for cats flag (t # ts)"
    by (simp add: total_for_def)
  finally show ?case .
qed

text \<open>
  C3. When the ids of the category table are unique, the totals of the rows that
  \<open>categoryBreakdown\<close> returns for a flag add up to the total of \<open>monthlySummary\<close> for
  the same scope and month: \<open>total_income\<close> for the flag true, \<open>total_expenses\<close>
  otherwise. The \<open>net\<close> of the summary is \<open>total_income\<close> minus \<open>total_expenses\<close>.
\<close>

theorem breakdown_totals_sum_to_summary:
  assumes "distinct (map cat_id cats)"
  shows "sum_list (map cb_total (categoryBreakdown cats txs sc m flag))
           = (if flag then total_income (monthlySummary cats txs sc m)
              else total_expenses (monthlySummary cats txs sc m))
         \<and> net (monthlySummary cats txs sc m)
           = total_income (monthlySummary cats txs sc m)
             - total_expenses (monthlySummary cats txs sc m)"
proof -
  have "sum_list (map cb_total (categoryBreakdown cats txs sc m flag))
        = total_for cats flag (selected sc m txs)"
    using breakdown_sum [OF assms, of "selected sc m txs" flag]
    by (simp add: categoryBreakdown_def Let_def sum_list_rev_sort_key comp_def
          cb_total_breakdown_row)
  then show ?thesis
    by (simp add: monthlySummary_def Let_def)
qed


text \<open>
  The theorem at the example ledger, March 2024: the expense rows are 500 and 65, the
  expenses 565, the income 1200.
\<close>

theorem breakdown_totals_sum_to_summary_witness:
  "distinct (map cat_id example_cats)
   \<and> map cb_total (categoryBreakdown example_cats example_txs (User_scope ''u1'') example_month False) = [500, 65]
   \<and> total_expenses (monthlySummary example_cats example_txs (User_scope ''u1'') example_month) = 565
   \<and> total_income (monthlySummary example_cats example_txs (User_scope ''u1'') example_month) = 1200
   \<and> net (monthlySummary example_cats example_txs (User_scope ''u1'') example_month) = 635"
proof -
  have d: "distinct (map cat_id example_cats)"
    by (simp add: example_cats_def)
  have sel: "selected (User_scope ''u1'') example_month example_txs
      = [example_tx ''t1'' 40 3 2 ''food'', example_tx ''t2'' 500 3 5 ''rent'',
         example_tx ''t3'' 25 3 9 ''food'', example_tx ''t4'' 1200 3 10 ''pay'']"
    by (simp add: selected_def example_txs_def example_tx_def in_month_def example_month_def)
  have rows: "map cb_total (categoryBreakdown example_cats example_txs (User_scope ''u1'') example_month False) = [500, 65]"
    by (simp add: categoryBreakdown_def sel Let_def example_cats_def example_tx_def
          breakdown_row_def)
  have inc: "total_income (monthlySummary example_cats example_txs (User_scope ''u1'') example_month) = 1200"
    by (simp add: monthlySummary_def sel Let_def total_for_def tx_flag_def example_cats_def
          example_tx_def)
  show ?thesis
    using breakdown_totals_sum_to_summary [OF d, of example_txs "User_scope ''u1''"
        example_month False] d rows inc
    by simp
qed

section \<open>Properties of the import mapper\<close>

text \<open>What the loop of \<open>confirm\<close> adds to the result it starts from.\<close>

lemma confirm_rows_counts:
  "imported (confirm_rows pd pa mp i rows res)
     = imported res + length (filter (\<lambda>row. \<not> isl (mapRow pd pa mp row)) rows)
   \<and> skipped (confirm_rows pd pa mp i rows res)
     = skipped res + length (filter (\<lambda>row. isl (mapRow pd pa mp row)) rows)"
proof (induction rows arbitrary: i res)
  case Nil
  then show ?case by simp
next
  case (Cons row rows)
  show ?case
  proof (cases "mapRow pd pa mp row")
    case (Inl e)
    then show ?thesis using Cons.IH by (cases e) simp
  next
    case (Inr t)
    then show ?thesis using Cons.IH by simp
  qed
qed

lemma confirm_rows_persisted:
  "persisted (confirm_rows pd pa mp i rows res)
     = persisted res
       @ List.map_filter (\<lambda>row. case mapRow pd pa mp row of Inl e \<Rightarrow> None | Inr t \<Rightarrow> Some t) rows"
proof (induction rows arbitrary: i res)
  case Nil
  then show ?case by simp
next
  case (Cons row rows)
  show ?case
  proof (cases "mapRow pd pa mp row")
    case (Inl e)
    then show ?thesis using Cons.IH by (cases e) simp
  next
    case (Inr t)
    then show ?thesis using Cons.IH by simp
  qed
qed

lemma confirm_rows_errors:
  "map fst (errors (confirm_rows pd pa mp i rows res))
     = map fst (errors res)
       @ map (\<lambda>k. i + k) (filter (\<lambda>k. isl (mapRow pd pa mp (rows ! k))) [0..<length rows])"
proof (induction rows arbitrary: i res)
  case Nil
  then show ?case by simp
next
  case (Cons row rows)
  have upt: "[0..<Suc (length rows)] = 0 # map Suc [0..<length rows]"
    by (simp add: upt_conv_Cons map_Suc_upt del: upt_Suc)
  show ?case
  proof (cases "mapRow pd pa mp row")
    case (Inl e)
    then show ?thesis using Cons.IH
      by (cases e) (simp add: upt filter_map comp_def del: upt_Suc)
  next
    case (Inr t)
    then show ?thesis using Cons.IH
      by (simp add: upt filter_map comp_def del: upt_Suc)
  qed
qed

lemma filter_split_length:
  "length (filter (\<lambda>x. \<not> P x) xs) + length (filter P xs) = length xs"
  by (induction xs) auto

lemma index_filter_length:
  "length (filter (\<lambda>k. P (xs ! k)) [0..<length xs]) = length (filter P xs)"
proof -
  have "length (filter P (map ((!) xs) [0..<length xs]))
        = length (filter (P \<circ> (!) xs) [0..<length xs])"
    by (simp add: filter_map)
  then show ?thesis by (simp add: map_nth comp_def)
qed

lemma mapRow_isl:
  "isl (mapRow pd pa mp row)
     = (Option.bind (row (date_column mp)) (pd (date_format mp)) = None
        \<or> Option.bind (row (amount_column mp)) pa = None)"
  by (auto simp: mapRow_def split: option.splits)

text \<open>
  C2. \<open>confirm\<close> applies \<open>mapRow\<close> to every data row. The rows that map are persisted,
  in the order of the file, and counted as imported; each row that fails is counted as
  skipped and leaves one error message with its row number, and the rows after it are
  still processed. So imported + skipped is the number of data rows and the number of
  error messages is skipped. A file of 10 rows of which 2 have a date that does not
  parse (the amounts all parse) gives imported 8, skipped 2 and 2 error messages.
\<close>

theorem confirm_skips_bad_rows:
  "imported (confirm pd pa rows mp) + skipped (confirm pd pa rows mp) = length rows
   \<and> length (errors (confirm pd pa rows mp)) = skipped (confirm pd pa rows mp)
   \<and> skipped (confirm pd pa rows mp)
       = length (filter (\<lambda>row. isl (mapRow pd pa mp row)) rows)
   \<and> map fst (errors (confirm pd pa rows mp))
       = map Suc (filter (\<lambda>k. isl (mapRow pd pa mp (rows ! k))) [0..<length rows])
   \<and> persisted (confirm pd pa rows mp)
       = List.map_filter
           (\<lambda>row. case mapRow pd pa mp row of Inl e \<Rightarrow> None | Inr t \<Rightarrow> Some t) rows
   \<and> imported (confirm pd pa rows mp) = length (persisted (confirm pd pa rows mp))
   \<and> (length rows = 10
        \<and> length (filter (\<lambda>row. Option.bind (row (date_column mp)) (pd (date_format mp)) = None)
                    rows) = 2
        \<and> (\<forall>row \<in> set rows. Option.bind (row (amount_column mp)) pa \<noteq> None)
       \<longrightarrow> imported (confirm pd pa rows mp) = 8 \<and> skipped (confirm pd pa rows mp) = 2
           \<and> length (errors (confirm pd pa rows mp)) = 2)"
proof -
  let ?res = "confirm pd pa rows mp"
  let ?bad = "\<lambda>row. isl (mapRow pd pa mp row)"
  have imp: "imported ?res = length (filter (\<lambda>row. \<not> ?bad row) rows)"
    and skp: "skipped ?res = length (filter ?bad rows)"
    using confirm_rows_counts [of pd pa mp 1 rows] by (simp_all add: confirm_def)
  have total: "imported ?res + skipped ?res = length rows"
    using imp skp filter_split_length [of "\<lambda>row. isl (mapRow pd pa mp row)" rows] by simp
  have err: "map fst (errors ?res) = map Suc (filter (\<lambda>k. ?bad (rows ! k)) [0..<length rows])"
    using confirm_rows_errors [of pd pa mp 1 rows] by (simp add: confirm_def)
  have idx: "length (filter (\<lambda>k. ?bad (rows ! k)) [0..<length rows]) = length (filter ?bad rows)"
    using index_filter_length [of "\<lambda>row. isl (mapRow pd pa mp row)" rows] by simp
  have nerr: "length (errors ?res) = skipped ?res"
    using arg_cong [OF err, of length] idx skp by simp
  have pers: "persisted ?res
       = List.map_filter
           (\<lambda>row. case mapRow pd pa mp row of Inl e \<Rightarrow> None | Inr t \<Rightarrow> Some t) rows"
    using confirm_rows_persisted [of pd pa mp 1 rows] by (simp add: confirm_def)
  have len_pers: "imported ?res = length (persisted ?res)"
  proof -
    have "length (List.map_filter
           (\<lambda>row. case mapRow pd pa mp row of Inl e \<Rightarrow> None | Inr t \<Rightarrow> Some t) rows)
          = length (filter (\<lambda>row. \<not> ?bad row) rows)"
      by (induction rows) (auto split: sum.splits)
    then show ?thesis using imp pers by simp
  qed
  have example: "imported ?res = 8 \<and> skipped ?res = 2 \<and> length (errors ?res) = 2"
    if ten: "length rows = 10"
      and two: "length (filter (\<lambda>row. Option.bind (row (date_column mp)) (pd (date_format mp)) = None)
                    rows) = 2"
      and amounts: "\<forall>row \<in> set rows. Option.bind (row (amount_column mp)) pa \<noteq> None"
  proof -
    have "filter ?bad rows
        = filter (\<lambda>row. Option.bind (row (date_column mp)) (pd (date_format mp)) = None) rows"
      using amounts by (intro filter_cong) (auto simp: mapRow_isl)
    then have "skipped ?res = 2" using skp two by simp
    then show ?thesis using total ten nerr by simp
  qed
  show ?thesis
    using total nerr skp err pers len_pers example by blast
qed

text \<open>
  The theorem at the example file: ten rows, the third and the seventh with dates that
  do not parse.
\<close>

theorem confirm_skips_bad_rows_witness:
  "length example_file = 10
   \<and> imported (confirm example_parse_date example_parse_decimal example_file example_mapping) = 8
   \<and> skipped (confirm example_parse_date example_parse_decimal example_file example_mapping) = 2
   \<and> map fst (errors (confirm example_parse_date example_parse_decimal example_file example_mapping))
       = [3, 7]"
proof -
  have ten: "length example_file = 10"
    by (simp add: example_file_def)
  have dates: "length (filter (\<lambda>row. Option.bind (row (date_column example_mapping))
                    (example_parse_date (date_format example_mapping)) = None) example_file) = 2"
    by (simp add: example_file_def example_mapping_def example_row_def example_parse_date_def)
  have amounts: "\<forall>row \<in> set example_file.
      Option.bind (row (amount_column example_mapping)) example_parse_decimal \<noteq> None"
    by code_simp
  have bad: "filter (\<lambda>k. isl (mapRow example_parse_date example_parse_decimal example_mapping
                 (example_file ! k))) [0..<length example_file] = [2, 6]"
    by (simp add: example_file_def example_mapping_def example_row_def example_parse_date_def
          example_parse_decimal_def mapRow_def upt_rec [of _ "numeral _"] upt_rec [of _ "Suc _"]
          nth_Cons' del: upt_Suc)
  note T = confirm_skips_bad_rows [of example_parse_date example_parse_decimal example_file
        example_mapping]
  have counts: "imported (confirm example_parse_date example_parse_decimal example_file example_mapping) = 8
     \<and> skipped (confirm example_parse_date example_parse_decimal example_file example_mapping) = 2"
    using T ten dates amounts by blast
  have "map fst (errors (confirm example_parse_date example_parse_decimal example_file example_mapping))
       = map Suc (filter (\<lambda>k. isl (mapRow example_parse_date example_parse_decimal example_mapping
                 (example_file ! k))) [0..<length example_file])"
    using T by blast
  then have "map fst (errors (confirm example_parse_date example_parse_decimal example_file example_mapping))
       = [3, 7]"
    unfolding bad by simp
  then show ?thesis using ten counts by simp
qed

end
